theory Spec2Isabelle
  imports Complex_Main
begin

section \<open>Values\<close>

text \<open>
  The pipeline passes untyped JavaScript values around (\<^verbatim>\<open>unknown\<close>,
  \<^verbatim>\<open>Record<string, unknown>\<close>). They are modelled by the JSON-shaped values plus
  \<^verbatim>\<open>undefined\<close> and the three non-finite numbers. A finite double is read as the
  rational it denotes; the code only compares numbers with \<open>0\<close> and \<open>1\<close>.
  An object is the list of its properties; the first binding of a key is the one read.
\<close>

datatype jsnum = Fin rat | NaN | PosInf | NegInf

datatype json =
    JUndefined
  | JNull
  | JBool bool
  | JNum jsnum
  | JStr string
  | JArr "json list"
  | JObj "(string \<times> json) list"

text \<open>Property access \<^verbatim>\<open>obj.key\<close>: a missing property reads as \<^verbatim>\<open>undefined\<close>.\<close>

fun field :: "string \<Rightarrow> json \<Rightarrow> json" where
  "field k (JObj kvs) = (case map_of kvs k of None \<Rightarrow> JUndefined | Some v \<Rightarrow> v)"
| "field k _ = JUndefined"

text \<open>JavaScript truthiness, as used by \<^verbatim>\<open>!content\<close> and \<^verbatim>\<open>x || fallback\<close>.\<close>

fun truthy :: "json \<Rightarrow> bool" where
  "truthy JUndefined = False"
| "truthy JNull = False"
| "truthy (JBool b) = b"
| "truthy (JNum (Fin q)) = (q \<noteq> 0)"
| "truthy (JNum NaN) = False"
| "truthy (JNum _) = True"
| "truthy (JStr s) = (s \<noteq> [])"
| "truthy (JArr _) = True"
| "truthy (JObj _) = True"

text \<open>
  Timestamps: the code stores \<^verbatim>\<open>new Date().toISOString()\<close> and reads it back with
  \<^verbatim>\<open>new Date(s).getTime()\<close>; both keep the millisecond count, which is what the model
  stores. Every operation receives the clock reading \<open>now\<close> of its invocation.
\<close>

type_synonym timestamp = int

section \<open>Documents (types.ts)\<close>

datatype ConversationState =
    RECEIVED
  | REASONING_REQUESTED
  | INTENT_VALIDATED
  | ACTION_REQUESTED
  | ACTION_COMPLETED
  | FAILED_VALIDATION
  | FAILED_EXECUTION

record Conversation =
  c_conversationId :: string
  c_state :: ConversationState
  c_createdAt :: timestamp
  c_updatedAt :: timestamp

record UserMessage =
  m_messageId :: string
  m_conversationId :: string
  m_content :: string
  m_createdAt :: timestamp
  m_idempotencyKey :: "string option"

record ReasoningIntent =
  i_intentId :: string
  i_conversationId :: string
  i_messageId :: string
  i_action :: string
  i_parameters :: json
  i_confidence :: jsnum
  i_createdAt :: timestamp
  i_valid :: bool
  i_validationError :: "string option"

record ActionResult =
  a_actionId :: string
  a_conversationId :: string
  a_intentId :: string
  a_messageId :: string
  a_result :: json
  a_executedAt :: timestamp
  a_success :: bool
  a_error :: "string option"

text \<open>
  The event payload is \<^verbatim>\<open>Record<string, unknown>\<close>; the model keeps the keys this
  repository writes and reads, each at the type the reader casts it to, absent when the
  producer did not set it.
\<close>

record Payload =
  p_content :: "string option"
  p_intentId :: "string option"
  p_action :: "string option"
  p_parameters :: "json option"
  p_confidence :: "jsnum option"

datatype EventType = reasoning_requested | action_requested

datatype Producer = Producer_api | Producer_reasoner | Producer_executor

record AgentEvent =
  e_eventId :: string
  e_eventType :: EventType
  e_conversationId :: string
  e_messageId :: string
  e_timestamp :: timestamp
  e_producer :: Producer
  e_payload :: Payload

text \<open>The documents that firestore.ts writes without a declared interface.\<close>

record Receipt =
  r_eventId :: "string option"
  r_handler :: "string option"
  r_conversationId :: "string option"
  r_messageId :: "string option"
  r_status :: string
  r_claimedAt :: "timestamp option"
  r_completedAt :: "timestamp option"
  r_retriedAt :: "timestamp option"

record IdempotencyKey =
  k_messageId :: string
  k_createdAt :: timestamp

record EventLog =
  l_eventId :: string
  l_eventType :: string
  l_timestamp :: timestamp
  l_payload :: json

section \<open>The store and the bus\<close>

text \<open>
  One record holds the Firestore collections and the messages published so far
  (topic and event, oldest first). Subcollections are keyed by the pair of the
  conversation id and the document id. The \<^verbatim>\<open>actions\<close> subcollection is a list of
  keyed documents because the executor queries it by a field.
\<close>

record store =
  conversations :: "string \<rightharpoonup> Conversation"
  messages :: "string \<times> string \<rightharpoonup> UserMessage"
  intents :: "string \<times> string \<rightharpoonup> ReasoningIntent"
  actions :: "((string \<times> string) \<times> ActionResult) list"
  events :: "string \<times> string \<rightharpoonup> EventLog"
  receipts :: "string \<rightharpoonup> Receipt"
  idempotencyKeys :: "string \<rightharpoonup> IdempotencyKey"
  published :: "(string \<times> AgentEvent) list"

text \<open>
  A thrown \<^verbatim>\<open>Error\<close> is a value. An operation returns its outcome together with the
  store it leaves behind: a transaction that throws leaves the store as it found it,
  while a handler that throws half-way keeps the writes it already made.
\<close>

datatype error =
    InvalidTransition ConversationState ConversationState
  | ConversationNotFound string
  | InvalidQueryValue
  | MissingMessageData
  | JsonSyntaxError

type_synonym 'a io = "store \<Rightarrow> (error + 'a) \<times> store"

definition andThen :: "'a io \<Rightarrow> ('a \<Rightarrow> 'b io) \<Rightarrow> 'b io" where
  "andThen m f s = (case m s of (Inl e, s') \<Rightarrow> (Inl e, s') | (Inr x, s') \<Rightarrow> f x s')"

section \<open>State machine (state-machine.ts)\<close>

fun VALID_TRANSITIONS :: "ConversationState \<Rightarrow> ConversationState list" where
  "VALID_TRANSITIONS RECEIVED = [REASONING_REQUESTED]"
| "VALID_TRANSITIONS REASONING_REQUESTED = [INTENT_VALIDATED, FAILED_VALIDATION]"
| "VALID_TRANSITIONS INTENT_VALIDATED = [ACTION_REQUESTED]"
| "VALID_TRANSITIONS ACTION_REQUESTED = [ACTION_COMPLETED, FAILED_EXECUTION]"
| "VALID_TRANSITIONS ACTION_COMPLETED = []"
| "VALID_TRANSITIONS FAILED_VALIDATION = []"
| "VALID_TRANSITIONS FAILED_EXECUTION = []"

definition validateTransition :: "ConversationState \<Rightarrow> ConversationState \<Rightarrow> bool" where
  "validateTransition current next = (next \<in> set (VALID_TRANSITIONS current))"

definition assertTransition :: "ConversationState \<Rightarrow> ConversationState \<Rightarrow> error + unit" where
  "assertTransition current next =
     (if \<not> validateTransition current next then Inl (InvalidTransition current next)
      else Inr ())"

section \<open>Store operations (firestore.ts)\<close>

definition createConversation :: "string \<Rightarrow> timestamp \<Rightarrow> Conversation io" where
  "createConversation conversationId now s =
     (let conversation =
        \<lparr>c_conversationId = conversationId, c_state = RECEIVED,
         c_createdAt = now, c_updatedAt = now\<rparr>
      in (Inr conversation,
          s\<lparr>conversations := (conversations s)(conversationId \<mapsto> conversation)\<rparr>))"

definition getConversation :: "string \<Rightarrow> store \<Rightarrow> Conversation option" where
  "getConversation conversationId s = conversations s conversationId"

definition transitionState :: "string \<Rightarrow> ConversationState \<Rightarrow> timestamp \<Rightarrow> unit io" where
  "transitionState conversationId nextState now s =
     (case conversations s conversationId of
        None \<Rightarrow> (Inl (ConversationNotFound conversationId), s)
      | Some current \<Rightarrow>
          (case assertTransition (c_state current) nextState of
             Inl e \<Rightarrow> (Inl e, s)
           | Inr _ \<Rightarrow>
               (Inr (),
                s\<lparr>conversations := (conversations s)(conversationId \<mapsto>
                     current\<lparr>c_state := nextState, c_updatedAt := now\<rparr>)\<rparr>)))"

definition saveMessage :: "UserMessage \<Rightarrow> unit io" where
  "saveMessage msg s =
     (Inr (), s\<lparr>messages := (messages s)((m_conversationId msg, m_messageId msg) \<mapsto> msg)\<rparr>)"

definition RECEIPT_STALE_THRESHOLD_MS :: int where
  "RECEIPT_STALE_THRESHOLD_MS = 2 * 60 * 1000"

record ReceiptMeta =
  meta_handler :: string
  meta_conversationId :: string
  meta_messageId :: string

definition claimReceipt :: "string \<Rightarrow> ReceiptMeta \<Rightarrow> timestamp \<Rightarrow> bool io" where
  "claimReceipt eventId meta now s =
     (case receipts s eventId of
        Some data \<Rightarrow>
          if r_status data = ''completed'' then (Inr False, s)
          else (case (r_status data = ''processing'', r_claimedAt data) of
                  (True, Some claimedAt) \<Rightarrow>
                    (let age = now - claimedAt in
                     if age < RECEIPT_STALE_THRESHOLD_MS then (Inr False, s)
                     else (Inr True,
                           s\<lparr>receipts := (receipts s)(eventId \<mapsto>
                                data\<lparr>r_status := ''processing'',
                                     r_claimedAt := Some now,
                                     r_retriedAt := Some now\<rparr>)\<rparr>))
                | _ \<Rightarrow> (Inr False, s))
      | None \<Rightarrow>
          (Inr True,
           s\<lparr>receipts := (receipts s)(eventId \<mapsto>
                \<lparr>r_eventId = Some eventId,
                 r_handler = Some (meta_handler meta),
                 r_conversationId = Some (meta_conversationId meta),
                 r_messageId = Some (meta_messageId meta),
                 r_status = ''processing'',
                 r_claimedAt = Some now,
                 r_completedAt = None,
                 r_retriedAt = None\<rparr>)\<rparr>))"

text \<open>
  \<^verbatim>\<open>set(..., { merge: true })\<close>: the two fields are written into the document, which
  is created with just these two fields when it does not exist.
\<close>

definition completeReceipt :: "string \<Rightarrow> timestamp \<Rightarrow> unit io" where
  "completeReceipt eventId now s =
     (Inr (),
      s\<lparr>receipts := (receipts s)(eventId \<mapsto>
           (case receipts s eventId of
              Some data \<Rightarrow> data\<lparr>r_status := ''completed'', r_completedAt := Some now\<rparr>
            | None \<Rightarrow>
                \<lparr>r_eventId = None, r_handler = None, r_conversationId = None,
                 r_messageId = None, r_status = ''completed'', r_claimedAt = None,
                 r_completedAt = Some now, r_retriedAt = None\<rparr>))\<rparr>)"

datatype IdempotencyClaim = IsNew | Existing string

definition claimIdempotencyKey :: "string \<Rightarrow> string \<Rightarrow> timestamp \<Rightarrow> IdempotencyClaim io" where
  "claimIdempotencyKey key messageId now s =
     (case idempotencyKeys s key of
        Some data \<Rightarrow> (Inr (Existing (k_messageId data)), s)
      | None \<Rightarrow>
          (Inr IsNew,
           s\<lparr>idempotencyKeys := (idempotencyKeys s)(key \<mapsto>
                \<lparr>k_messageId = messageId, k_createdAt = now\<rparr>)\<rparr>))"

definition logEvent :: "string \<Rightarrow> string \<Rightarrow> string \<Rightarrow> json \<Rightarrow> timestamp \<Rightarrow> unit io" where
  "logEvent conversationId eventId eventType payload now s =
     (Inr (),
      s\<lparr>events := (events s)((conversationId, eventId) \<mapsto>
           \<lparr>l_eventId = eventId, l_eventType = eventType,
            l_timestamp = now, l_payload = payload\<rparr>)\<rparr>)"

definition saveIntent :: "ReasoningIntent \<Rightarrow> unit io" where
  "saveIntent intent s =
     (Inr (), s\<lparr>intents := (intents s)((i_conversationId intent, i_intentId intent) \<mapsto> intent)\<rparr>)"

text \<open>\<^verbatim>\<open>doc(id).set(result)\<close> on the list: the document under the key is replaced.\<close>

definition saveActionResult :: "ActionResult \<Rightarrow> unit io" where
  "saveActionResult result s =
     (let key = (a_conversationId result, a_actionId result) in
      (Inr (), s\<lparr>actions := (key, result) # filter (\<lambda>kv. fst kv \<noteq> key) (actions s)\<rparr>))"

definition findActionResultByIntentId :: "string \<Rightarrow> string \<Rightarrow> bool io" where
  "findActionResultByIntentId conversationId intentId s =
     (Inr (list_ex (\<lambda>kv. fst (fst kv) = conversationId \<and> a_intentId (snd kv) = intentId)
             (actions s)), s)"

section \<open>Schema validation (schema.ts)\<close>

text \<open>
  \<^verbatim>\<open>IntentSchema\<close> is built from the combinators of the zod library, a dependency
  that is not part of the repository. Their parsing behaviour is written out here for
  the six fields of the schema: an object parser visits its keys in order and collects
  every issue; a string, enum, record or number parser first checks the type of the
  value and then runs its checks. An issue carries the path of the field and a message.
\<close>

record ZodIssue =
  path :: "string list"
  message :: string

datatype SafeParse = Success json | Failure "ZodIssue list"

fun parsedType :: "json \<Rightarrow> string" where
  "parsedType JUndefined = ''undefined''"
| "parsedType JNull = ''null''"
| "parsedType (JBool _) = ''boolean''"
| "parsedType (JNum NaN) = ''nan''"
| "parsedType (JNum _) = ''number''"
| "parsedType (JStr _) = ''string''"
| "parsedType (JArr _) = ''array''"
| "parsedType (JObj _) = ''object''"

definition invalid_type :: "string list \<Rightarrow> string \<Rightarrow> json \<Rightarrow> ZodIssue" where
  "invalid_type p expected v =
     \<lparr>path = p,
      message = (if v = JUndefined then ''Required''
                 else ''Expected '' @ expected @ '', received '' @ parsedType v)\<rparr>"

text \<open>The textual form of a UUID: hexadecimal groups of 8, 4, 4, 4 and 12 digits.\<close>

datatype CharClass = HexDigit | Dash | OtherChar

definition charClass :: "char \<Rightarrow> CharClass" where
  "charClass c =
     (if c \<in> set ''0123456789abcdefABCDEF'' then HexDigit
      else if c = CHR ''-'' then Dash else OtherChar)"

definition uuidShape :: "CharClass list" where
  "uuidShape =
     replicate 8 HexDigit @ [Dash] @ replicate 4 HexDigit @ [Dash] @
     replicate 4 HexDigit @ [Dash] @ replicate 4 HexDigit @ [Dash] @
     replicate 12 HexDigit"

definition isUuid :: "string \<Rightarrow> bool" where
  "isUuid s = (map charClass s = uuidShape)"

text \<open>The comparison \<^verbatim>\<open><\<close> of two JavaScript numbers.\<close>

fun js_lt :: "jsnum \<Rightarrow> jsnum \<Rightarrow> bool" where
  "js_lt (Fin a) (Fin b) = (a < b)"
| "js_lt NaN _ = False"
| "js_lt _ NaN = False"
| "js_lt PosInf _ = False"
| "js_lt _ PosInf = True"
| "js_lt NegInf NegInf = False"
| "js_lt NegInf _ = True"
| "js_lt _ NegInf = False"

definition quoted :: "string \<Rightarrow> string" where
  "quoted s = [CHR 0x27] @ s @ [CHR 0x27]"

definition ACTIONS :: "string list" where
  "ACTIONS = [''search'', ''calculate'', ''summarize'', ''translate'']"

fun joinWith :: "string \<Rightarrow> string list \<Rightarrow> string" where
  "joinWith sep [] = []"
| "joinWith sep [x] = x"
| "joinWith sep (x # y # ys) = x @ sep @ joinWith sep (y # ys)"

definition actionsText :: string where
  "actionsText = joinWith '' | '' (map quoted ACTIONS)"

text \<open>\<^verbatim>\<open>z.string().uuid()\<close>\<close>

definition parse_intentId :: "json \<Rightarrow> ZodIssue list" where
  "parse_intentId v =
     (case v of
        JStr s \<Rightarrow> if isUuid s then [] else [\<lparr>path = [''intentId''], message = ''Invalid uuid''\<rparr>]
      | _ \<Rightarrow> [invalid_type [''intentId''] ''string'' v])"

text \<open>\<^verbatim>\<open>z.string().min(1)\<close>\<close>

definition parse_nonEmpty :: "string \<Rightarrow> json \<Rightarrow> ZodIssue list" where
  "parse_nonEmpty key v =
     (case v of
        JStr s \<Rightarrow>
          if length s < 1
          then [\<lparr>path = [key], message = ''String must contain at least 1 character(s)''\<rparr>]
          else []
      | _ \<Rightarrow> [invalid_type [key] ''string'' v])"

text \<open>\<^verbatim>\<open>z.enum(['search', 'calculate', 'summarize', 'translate'])\<close>\<close>

definition parse_action :: "json \<Rightarrow> ZodIssue list" where
  "parse_action v =
     (case v of
        JStr s \<Rightarrow>
          if s \<in> set ACTIONS then []
          else [\<lparr>path = [''action''],
                 message = ''Invalid enum value. Expected '' @ actionsText @
                           '', received '' @ quoted s\<rparr>]
      | _ \<Rightarrow> [invalid_type [''action''] actionsText v])"

text \<open>\<^verbatim>\<open>z.record(z.unknown())\<close>\<close>

definition parse_parameters :: "json \<Rightarrow> ZodIssue list" where
  "parse_parameters v =
     (case v of
        JObj _ \<Rightarrow> []
      | _ \<Rightarrow> [invalid_type [''parameters''] ''object'' v])"

text \<open>\<^verbatim>\<open>z.number().min(0).max(1)\<close>\<close>

definition parse_confidence :: "json \<Rightarrow> ZodIssue list" where
  "parse_confidence v =
     (case v of
        JNum n \<Rightarrow>
          if n = NaN then [invalid_type [''confidence''] ''number'' v]
          else
            (if js_lt n (Fin 0)
             then [\<lparr>path = [''confidence''],
                    message = ''Number must be greater than or equal to 0''\<rparr>]
             else []) @
            (if js_lt (Fin 1) n
             then [\<lparr>path = [''confidence''],
                    message = ''Number must be less than or equal to 1''\<rparr>]
             else [])
      | _ \<Rightarrow> [invalid_type [''confidence''] ''number'' v])"

definition IntentSchema_safeParse :: "json \<Rightarrow> SafeParse" where
  "IntentSchema_safeParse raw =
     (case raw of
        JObj _ \<Rightarrow>
          (let issues =
             parse_intentId (field ''intentId'' raw) @
             parse_nonEmpty ''conversationId'' (field ''conversationId'' raw) @
             parse_nonEmpty ''messageId'' (field ''messageId'' raw) @
             parse_action (field ''action'' raw) @
             parse_parameters (field ''parameters'' raw) @
             parse_confidence (field ''confidence'' raw)
           in if issues = []
              then Success (JObj (map (\<lambda>k. (k, field k raw))
                     [''intentId'', ''conversationId'', ''messageId'', ''action'',
                      ''parameters'', ''confidence'']))
              else Failure issues)
      | _ \<Rightarrow> Failure [invalid_type [] ''object'' raw])"

record ValidationResult =
  valid :: bool
  data :: "json option"
  error :: "string option"

definition validateIntent :: "json \<Rightarrow> ValidationResult" where
  "validateIntent raw =
     (case IntentSchema_safeParse raw of
        Success d \<Rightarrow> \<lparr>valid = True, data = Some d, error = None\<rparr>
      | Failure issues \<Rightarrow>
          \<lparr>valid = False, data = None,
           error = Some (joinWith ''; ''
                     (map (\<lambda>i. joinWith ''.'' (path i) @ '': '' @ message i) issues))\<rparr>)"

section \<open>Bus adapter (pubsub.ts)\<close>

text \<open>
  Publishing appends the event to the topic. The message id that the bus returns is
  only logged, so the model returns nothing.
\<close>

definition publishEvent :: "string \<Rightarrow> AgentEvent \<Rightarrow> unit io" where
  "publishEvent topicName event s = (Inr (), s\<lparr>published := published s @ [(topicName, event)]\<rparr>)"

text \<open>
  The delivered \<^verbatim>\<open>message.data\<close> is a base64 string of JSON text. The model keeps
  what that string amounts to: the empty string, text that \<^verbatim>\<open>JSON.parse\<close> rejects,
  or the encoding of an event.
\<close>

datatype Wire = EmptyData | Undecodable | Encoded AgentEvent

record PubsubMessage =
  msg_data :: "Wire option"

record MessagePublishedData =
  mpd_message :: "PubsubMessage option"

definition decodeEventData :: "MessagePublishedData option \<Rightarrow> error + AgentEvent" where
  "decodeEventData d =
     (case d of
        None \<Rightarrow> Inl MissingMessageData
      | Some published_data \<Rightarrow>
          (case mpd_message published_data of
             None \<Rightarrow> Inl MissingMessageData
           | Some m \<Rightarrow>
               (case msg_data m of
                  None \<Rightarrow> Inl MissingMessageData
                | Some EmptyData \<Rightarrow> Inl MissingMessageData
                | Some Undecodable \<Rightarrow> Inl JsonSyntaxError
                | Some (Encoded agentEvent) \<Rightarrow> Inr agentEvent)))"

section \<open>Reasoner (reasoner.ts)\<close>

definition TOPIC_ACTION :: string where
  "TOPIC_ACTION = ''action-requested''"

text \<open>
  \<^verbatim>\<open>toLowerCase\<close> on the ASCII letters, and \<^verbatim>\<open>includes\<close> as the search for a
  contiguous substring.
\<close>

definition lowerChar :: "char \<Rightarrow> char" where
  "lowerChar c =
     (let n = (of_char c :: nat) in if 65 \<le> n \<and> n \<le> 90 then char_of (n + 32) else c)"

definition toLowerCase :: "string \<Rightarrow> string" where
  "toLowerCase s = map lowerChar s"

fun startsWith :: "string \<Rightarrow> string \<Rightarrow> bool" where
  "startsWith _ [] = True"
| "startsWith [] (_ # _) = False"
| "startsWith (x # xs) (y # ys) = (x = y \<and> startsWith xs ys)"

fun string_includes :: "string \<Rightarrow> string \<Rightarrow> bool" where
  "string_includes [] sub = startsWith [] sub"
| "string_includes (c # cs) sub = (startsWith (c # cs) sub \<or> string_includes cs sub)"

text \<open>The argument \<open>uuid\<close> is the identifier that \<^verbatim>\<open>uuidv4()\<close> mints in the call.\<close>

definition intentCandidate ::
  "string \<Rightarrow> string \<Rightarrow> string \<Rightarrow> string \<Rightarrow> json \<Rightarrow> rat \<Rightarrow> json" where
  "intentCandidate uuid conversationId messageId action parameters confidence =
     JObj [(''intentId'', JStr uuid),
           (''conversationId'', JStr conversationId),
           (''messageId'', JStr messageId),
           (''action'', JStr action),
           (''parameters'', parameters),
           (''confidence'', JNum (Fin confidence))]"

definition mockReasoning :: "string \<Rightarrow> string \<Rightarrow> string \<Rightarrow> string \<Rightarrow> json" where
  "mockReasoning content conversationId messageId uuid =
     (let lower = toLowerCase content in
      if string_includes lower ''search'' \<or> string_includes lower ''find''
      then intentCandidate uuid conversationId messageId ''search''
             (JObj [(''query'', JStr content)]) (92 / 100)
      else if string_includes lower ''calculate'' \<or> string_includes lower ''compute'' \<or> string_includes lower ''math''
      then intentCandidate uuid conversationId messageId ''calculate''
             (JObj [(''expression'', JStr content)]) (88 / 100)
      else if string_includes lower ''summarize'' \<or> string_includes lower ''summary''
      then intentCandidate uuid conversationId messageId ''summarize''
             (JObj [(''text'', JStr content)]) (85 / 100)
      else if string_includes lower ''translate''
      then intentCandidate uuid conversationId messageId ''translate''
             (JObj [(''text'', JStr content), (''targetLang'', JStr ''en'')]) (90 / 100)
      else intentCandidate uuid conversationId messageId ''search''
             (JObj [(''query'', JStr content)]) (60 / 100))"

text \<open>
  \<^verbatim>\<open>(v as string) || fallback\<close> and \<^verbatim>\<open>(v as number) || fallback\<close>: the cast promises a
  value of the type, and a falsy one gives way to the fallback. The typed document has
  no place for a value that breaks the promise; the model reads it as the fallback.
  Every candidate that \<open>mockReasoning\<close> builds keeps the promise.
\<close>

definition stringOr :: "json \<Rightarrow> string \<Rightarrow> string" where
  "stringOr v fallback = (case v of JStr s \<Rightarrow> if s = [] then fallback else s | _ \<Rightarrow> fallback)"

definition numberOr :: "json \<Rightarrow> jsnum \<Rightarrow> jsnum" where
  "numberOr v fallback = (case v of JNum n \<Rightarrow> if truthy v then n else fallback | _ \<Rightarrow> fallback)"

definition valueOr :: "json \<Rightarrow> json \<Rightarrow> json" where
  "valueOr v fallback = (if truthy v then v else fallback)"

definition intentDoc ::
  "json \<Rightarrow> ValidationResult \<Rightarrow> string \<Rightarrow> string \<Rightarrow> string \<Rightarrow> timestamp \<Rightarrow> ReasoningIntent" where
  "intentDoc rawIntent validation conversationId messageId uuid now =
     \<lparr>i_intentId = stringOr (field ''intentId'' rawIntent) uuid,
      i_conversationId = conversationId,
      i_messageId = messageId,
      i_action = stringOr (field ''action'' rawIntent) ''unknown'',
      i_parameters = valueOr (field ''parameters'' rawIntent) (JObj []),
      i_confidence = numberOr (field ''confidence'' rawIntent) (Fin 0),
      i_createdAt = now,
      i_valid = valid validation,
      i_validationError = error validation\<rparr>"

definition ret :: "'a \<Rightarrow> 'a io" where
  "ret x s = (Inr x, s)"

text \<open>
  The identifiers one invocation of the reasoner can mint: in \<open>mockReasoning\<close>, as the
  fallback for a candidate without an intent id, and for the action event.
\<close>

record ReasonerUuids =
  u_intentId :: string
  u_fallbackIntentId :: string
  u_actionEventId :: string

text \<open>
  The handler acknowledges the delivery by returning (\<open>Inr ()\<close>) and rejects it by
  throwing (\<open>Inl\<close>), on which the bus delivers the event again. A delivery that does
  not decode is acknowledged at once.
\<close>

text \<open>The handler after the decoding of the delivery.\<close>

definition processReasoning :: "AgentEvent \<Rightarrow> ReasonerUuids \<Rightarrow> timestamp \<Rightarrow> unit io" where
  "processReasoning agentEvent uuids now =
     (let eventId = e_eventId agentEvent;
          conversationId = e_conversationId agentEvent;
          messageId = e_messageId agentEvent;
          payload = e_payload agentEvent
      in andThen
           (claimReceipt eventId
              \<lparr>meta_handler = ''reasoner'', meta_conversationId = conversationId,
               meta_messageId = messageId\<rparr> now)
           (\<lambda>isNew.
              if \<not> isNew then ret ()
              else
                (let content = (case p_content payload of Some c \<Rightarrow> c | None \<Rightarrow> []);
                     rawIntent = mockReasoning content conversationId messageId
                                   (u_intentId uuids);
                     validation = validateIntent rawIntent;
                     doc = intentDoc rawIntent validation conversationId messageId
                             (u_fallbackIntentId uuids) now
                 in andThen (saveIntent doc) (\<lambda>_.
                    andThen (logEvent conversationId eventId ''reasoning_completed''
                               (JObj [(''intentId'', JStr (i_intentId doc)),
                                      (''valid'', JBool (valid validation))]) now) (\<lambda>_.
                    if \<not> valid validation
                    then andThen (transitionState conversationId FAILED_VALIDATION now) (\<lambda>_.
                         completeReceipt eventId now)
                    else andThen (transitionState conversationId INTENT_VALIDATED now) (\<lambda>_.
                         andThen (publishEvent TOPIC_ACTION
                                    \<lparr>e_eventId = u_actionEventId uuids,
                                     e_eventType = action_requested,
                                     e_conversationId = conversationId,
                                     e_messageId = messageId,
                                     e_timestamp = now,
                                     e_producer = Producer_reasoner,
                                     e_payload =
                                       \<lparr>p_content = None,
                                        p_intentId = Some (i_intentId doc),
                                        p_action = Some (i_action doc),
                                        p_parameters = Some (i_parameters doc),
                                        p_confidence = Some (i_confidence doc)\<rparr>\<rparr>) (\<lambda>_.
                         andThen (transitionState conversationId ACTION_REQUESTED now) (\<lambda>_.
                         completeReceipt eventId now))))))))"

definition reasoner :: "MessagePublishedData option \<Rightarrow> ReasonerUuids \<Rightarrow> timestamp \<Rightarrow> unit io" where
  "reasoner event_data uuids now s =
     (case decodeEventData event_data of
        Inl err \<Rightarrow> (Inr (), s)
      | Inr agentEvent \<Rightarrow> processReasoning agentEvent uuids now s)"

section \<open>Executor (executor.ts)\<close>

record ToolResult =
  t_success :: bool
  t_result :: json
  t_error :: "string option"

text \<open>
  \<^verbatim>\<open>.length\<close> of a JavaScript string counts UTF-16 code units, while a string of
  the model is the list of its UTF-8 bytes. Byte by byte: an ASCII byte and the lead
  byte of a two- or three-byte sequence stand for one code unit, the lead byte of a
  four-byte sequence for the two units of a surrogate pair, and a continuation byte for
  none.
\<close>

fun utf16Length :: "string \<Rightarrow> nat" where
  "utf16Length [] = 0"
| "utf16Length (c # cs) =
     (let b = (of_char c :: nat)
      in if b < 128 then 1 else if b < 192 then 0 else if b < 240 then 1 else 2) +
     utf16Length cs"

text \<open>
  \<open>js_String\<close> stands for the conversion \<^verbatim>\<open>String(v)\<close> of the JavaScript runtime,
  which \<open>summarize\<close> applies to a value of unknown type. The action comes from
  \<^verbatim>\<open>payload.action as string\<close>; an absent one is \<^verbatim>\<open>undefined\<close> and prints as such.
\<close>

definition executeTool :: "(json \<Rightarrow> string) \<Rightarrow> string option \<Rightarrow> json \<Rightarrow> ToolResult" where
  "executeTool js_String action parameters =
     (if action = Some ''search'' then
        \<lparr>t_success = True,
         t_result = JObj
           [(''tool'', JStr ''search''),
            (''query'', field ''query'' parameters),
            (''results'', JArr
               [JObj [(''title'', JStr ''Result 1''),
                      (''snippet'', JStr ''Relevant information found for the query.'')],
                JObj [(''title'', JStr ''Result 2''),
                      (''snippet'', JStr ''Additional context from another source.'')]]),
            (''totalResults'', JNum (Fin 2))],
         t_error = None\<rparr>
      else if action = Some ''calculate'' then
        \<lparr>t_success = True,
         t_result = JObj
           [(''tool'', JStr ''calculate''),
            (''expression'', field ''expression'' parameters),
            (''answer'', JNum (Fin 42)),
            (''note'', JStr (''Mocked calculation '' @ [CHR 0xE2, CHR 0x80, CHR 0x93] @
                             '' always returns 42 for determinism.''))],
         t_error = None\<rparr>
      else if action = Some ''summarize'' then
        \<lparr>t_success = True,
         t_result = JObj
           [(''tool'', JStr ''summarize''),
            (''inputLength'',
               JNum (Fin (of_nat (utf16Length (js_String (valueOr (field ''text'' parameters) (JStr []))))))),
            (''summary'', JStr ''This is a mocked summary of the provided text.'')],
         t_error = None\<rparr>
      else if action = Some ''translate'' then
        \<lparr>t_success = True,
         t_result = JObj
           [(''tool'', JStr ''translate''),
            (''targetLang'', valueOr (field ''targetLang'' parameters) (JStr ''en'')),
            (''translation'', JStr ''This is a mocked translation output.'')],
         t_error = None\<rparr>
      else
        \<lparr>t_success = False,
         t_result = JObj [],
         t_error = Some (''Unknown action: '' @
                         (case action of None \<Rightarrow> ''undefined'' | Some a \<Rightarrow> a))\<rparr>)"

text \<open>
  The query \<^verbatim>\<open>where('intentId', '==', intentId)\<close> with an absent intent id is
  rejected by the store client before it runs.
\<close>

definition processAction ::
  "(json \<Rightarrow> string) \<Rightarrow> AgentEvent \<Rightarrow> string \<Rightarrow> timestamp \<Rightarrow> unit io" where
  "processAction js_String agentEvent actionUuid now =
     (let eventId = e_eventId agentEvent;
          conversationId = e_conversationId agentEvent;
          messageId = e_messageId agentEvent;
          payload = e_payload agentEvent
      in andThen
           (claimReceipt eventId
              \<lparr>meta_handler = ''executor'', meta_conversationId = conversationId,
               meta_messageId = messageId\<rparr> now)
           (\<lambda>isNew.
              if \<not> isNew then ret ()
              else
                (let action = p_action payload;
                     parameters = (case p_parameters payload of
                                     Some p \<Rightarrow> valueOr p (JObj [])
                                   | None \<Rightarrow> JObj [])
                 in case p_intentId payload of
                      None \<Rightarrow> (\<lambda>s'. (Inl InvalidQueryValue, s'))
                    | Some intentId \<Rightarrow>
                        andThen (findActionResultByIntentId conversationId intentId)
                          (\<lambda>alreadyExecuted.
                             if alreadyExecuted then completeReceipt eventId now
                             else
                               (let tool = executeTool js_String action parameters;
                                    actionResult =
                                      \<lparr>a_actionId = actionUuid,
                                       a_conversationId = conversationId,
                                       a_intentId = intentId,
                                       a_messageId = messageId,
                                       a_result = t_result tool,
                                       a_executedAt = now,
                                       a_success = t_success tool,
                                       a_error = t_error tool\<rparr>
                                in andThen (saveActionResult actionResult) (\<lambda>_.
                                   andThen (logEvent conversationId eventId ''action_executed''
                                              (JObj [(''actionId'', JStr actionUuid),
                                                     (''success'', JBool (t_success tool))])
                                              now) (\<lambda>_.
                                   if t_success tool
                                   then andThen
                                          (transitionState conversationId ACTION_COMPLETED now)
                                          (\<lambda>_. completeReceipt eventId now)
                                   else andThen
                                          (transitionState conversationId FAILED_EXECUTION now)
                                          (\<lambda>_. completeReceipt eventId now))))))))"

definition executor ::
  "(json \<Rightarrow> string) \<Rightarrow> MessagePublishedData option \<Rightarrow> string \<Rightarrow> timestamp \<Rightarrow> unit io" where
  "executor js_String event_data actionUuid now s =
     (case decodeEventData event_data of
        Inl err \<Rightarrow> (Inr (), s)
      | Inr agentEvent \<Rightarrow> processAction js_String agentEvent actionUuid now s)"

section \<open>Ingress (api.ts)\<close>

definition TOPIC_REASONING :: string where
  "TOPIC_REASONING = ''reasoning-requested''"

text \<open>
  The request as the handler reads it: the \<^verbatim>\<open>content\<close> property of the body
  (\<^verbatim>\<open>undefined\<close> when the body has none), the optional \<^verbatim>\<open>conversationId\<close> of the
  documented request, and the \<^verbatim>\<open>X-Idempotency-Key\<close> header.
\<close>

record Request =
  body_content :: json
  body_conversationId :: "string option"
  header_idempotencyKey :: "string option"

type_synonym Response = "nat \<times> json"

record ApiUuids =
  u_conversationId :: string
  u_messageId :: string
  u_eventId :: string

fun stateName :: "ConversationState \<Rightarrow> string" where
  "stateName RECEIVED = ''RECEIVED''"
| "stateName REASONING_REQUESTED = ''REASONING_REQUESTED''"
| "stateName INTENT_VALIDATED = ''INTENT_VALIDATED''"
| "stateName ACTION_REQUESTED = ''ACTION_REQUESTED''"
| "stateName ACTION_COMPLETED = ''ACTION_COMPLETED''"
| "stateName FAILED_VALIDATION = ''FAILED_VALIDATION''"
| "stateName FAILED_EXECUTION = ''FAILED_EXECUTION''"

text \<open>
  \<^verbatim>\<open>err.message\<close> of the errors that the store operations throw; the arrow of the
  transition message is written as its three UTF-8 bytes. The last three errors come
  from the runtime and the store client, whose wording the repository does not fix.
\<close>

fun errorMessage :: "error \<Rightarrow> string" where
  "errorMessage (InvalidTransition current next) =
     ''Invalid state transition: '' @ stateName current @
     '' '' @ [CHR 0xE2, CHR 0x86, CHR 0x92] @ '' '' @ stateName next @ ''. '' @
     ''Allowed from '' @ stateName current @ '': ['' @
     joinWith '', '' (map stateName (VALID_TRANSITIONS current)) @ '']''"
| "errorMessage (ConversationNotFound conversationId) =
     ''Conversation '' @ conversationId @ '' not found''"
| "errorMessage MissingMessageData = ''Missing Pub/Sub message data in CloudEvent''"
| "errorMessage InvalidQueryValue = ''invalid query value''"
| "errorMessage JsonSyntaxError = ''invalid JSON''"

definition BAD_CONTENT :: string where
  "BAD_CONTENT = ''Missing or invalid '' @ [CHR 0x22] @ ''content'' @ [CHR 0x22] @ '' field''"

text \<open>\<^verbatim>\<open>typeof v === 'string'\<close>\<close>

definition isString :: "json \<Rightarrow> bool" where
  "isString v = (case v of JStr _ \<Rightarrow> True | _ \<Rightarrow> False)"

text \<open>
  The part of the handler after the check of the body, which runs inside the
  \<^verbatim>\<open>try\<close> block: an error thrown here becomes the 500 response. An empty
  \<^verbatim>\<open>conversationId\<close> or header is falsy and counts as absent.
\<close>

definition acceptMessage :: "string \<Rightarrow> Request \<Rightarrow> ApiUuids \<Rightarrow> timestamp \<Rightarrow> Response io" where
  "acceptMessage content req uuids now =
     (let existingConvId = (case body_conversationId req of
                              Some c \<Rightarrow> if c = [] then None else Some c
                            | None \<Rightarrow> None);
          conversationId = (case existingConvId of
                              Some c \<Rightarrow> c
                            | None \<Rightarrow> u_conversationId uuids);
          messageId = u_messageId uuids;
          idempotencyKey = header_idempotencyKey req
      in andThen
           (case idempotencyKey of
              Some key \<Rightarrow> if key = [] then ret IsNew
                          else claimIdempotencyKey key messageId now
            | None \<Rightarrow> ret IsNew)
           (\<lambda>claim.
              case claim of
                Existing existingMessageId \<Rightarrow>
                  ret (200, JObj [(''messageId'', JStr existingMessageId),
                                  (''duplicate'', JBool True),
                                  (''message'', JStr ''Request already processed'')])
              | IsNew \<Rightarrow>
                  andThen
                    (if existingConvId = None
                     then andThen (createConversation conversationId now) (\<lambda>_. ret ())
                     else ret ())
                    (\<lambda>_.
                  andThen
                    (saveMessage
                       \<lparr>m_messageId = messageId, m_conversationId = conversationId,
                        m_content = content, m_createdAt = now,
                        m_idempotencyKey = idempotencyKey\<rparr>) (\<lambda>_.
                  (let eventId = u_eventId uuids;
                       event =
                         \<lparr>e_eventId = eventId,
                          e_eventType = reasoning_requested,
                          e_conversationId = conversationId,
                          e_messageId = messageId,
                          e_timestamp = now,
                          e_producer = Producer_api,
                          e_payload =
                            \<lparr>p_content = Some content, p_intentId = None, p_action = None,
                             p_parameters = None, p_confidence = None\<rparr>\<rparr>
                   in andThen (logEvent conversationId eventId ''reasoning_requested''
                                 (JObj [(''content'', JStr content)]) now) (\<lambda>_.
                      andThen (publishEvent TOPIC_REASONING event) (\<lambda>_.
                      andThen (transitionState conversationId REASONING_REQUESTED now) (\<lambda>_.
                      ret (201, JObj [(''messageId'', JStr messageId),
                                      (''conversationId'', JStr conversationId),
                                      (''eventId'', JStr eventId),
                                      (''state'', JStr ''REASONING_REQUESTED'')])))))))))"

definition post_messages :: "Request \<Rightarrow> ApiUuids \<Rightarrow> timestamp \<Rightarrow> store \<Rightarrow> Response \<times> store" where
  "post_messages req uuids now s =
     (let content = body_content req in
      if \<not> truthy content \<or> \<not> isString content
      then ((400, JObj [(''error'', JStr BAD_CONTENT)]), s)
      else (case acceptMessage (stringOr content []) req uuids now s of
              (Inr response, s') \<Rightarrow> (response, s')
            | (Inl err, s') \<Rightarrow> ((500, JObj [(''error'', JStr (errorMessage err))]), s')))"

text \<open>
  The transition table as the specification prints it, pair by pair; it is compared
  below with \<open>VALID_TRANSITIONS\<close> of the source.
\<close>

definition TRANSITION_TABLE :: "(ConversationState \<times> ConversationState) list" where
  "TRANSITION_TABLE =
     [(RECEIVED, REASONING_REQUESTED),
      (REASONING_REQUESTED, INTENT_VALIDATED),
      (REASONING_REQUESTED, FAILED_VALIDATION),
      (INTENT_VALIDATED, ACTION_REQUESTED),
      (ACTION_REQUESTED, ACTION_COMPLETED),
      (ACTION_REQUESTED, FAILED_EXECUTION)]"

text \<open>
  The shape of an intent in the words of the specification: an object whose
  \<open>intentId\<close> is a UUID string, whose \<open>conversationId\<close> and \<open>messageId\<close> are
  non-empty strings, whose \<open>action\<close> is one of the four actions, whose
  \<open>parameters\<close> is a map and whose \<open>confidence\<close> is a number between 0 and 1.
\<close>

definition isObject :: "json \<Rightarrow> bool" where
  "isObject v = (case v of JObj _ \<Rightarrow> True | _ \<Rightarrow> False)"

definition intentShape :: "json \<Rightarrow> bool" where
  "intentShape raw =
     (isObject raw
      \<and> (case field ''intentId'' raw of JStr s \<Rightarrow> isUuid s | _ \<Rightarrow> False)
      \<and> (case field ''conversationId'' raw of JStr s \<Rightarrow> s \<noteq> [] | _ \<Rightarrow> False)
      \<and> (case field ''messageId'' raw of JStr s \<Rightarrow> s \<noteq> [] | _ \<Rightarrow> False)
      \<and> (case field ''action'' raw of
            JStr a \<Rightarrow> a \<in> {''search'', ''calculate'', ''summarize'', ''translate''}
          | _ \<Rightarrow> False)
      \<and> isObject (field ''parameters'' raw)
      \<and> (case field ''confidence'' raw of JNum (Fin q) \<Rightarrow> 0 \<le> q \<and> q \<le> 1 | _ \<Rightarrow> False))"

text \<open>
  Invariants of the handlers: a property of the store that an operation keeps, the
  intents that a run adds to those of an earlier store, and the conversations that a run
  leaves in the failed-validation state.
\<close>

definition preserves :: "(store \<Rightarrow> bool) \<Rightarrow> 'a io \<Rightarrow> bool" where
  "preserves I m = (\<forall>s. I s \<longrightarrow> I (snd (m s)))"

definition intentsFrom :: "store \<Rightarrow> store \<Rightarrow> bool" where
  "intentsFrom s0 s =
     (\<forall>k d. intents s k = Some d \<longrightarrow>
        intents s0 k = Some d \<or> (i_valid d \<longleftrightarrow> i_validationError d = None))"


section \<open>Example data\<close>

text \<open>Concrete stores, receipts and events on which the theorems below are instantiated.\<close>

definition emptyStore :: store where
  "emptyStore =
     \<lparr>conversations = Map.empty, messages = Map.empty, intents = Map.empty, actions = [],
      events = Map.empty, receipts = Map.empty, idempotencyKeys = Map.empty, published = []\<rparr>"

definition conv1 :: "ConversationState \<Rightarrow> Conversation" where
  "conv1 st = \<lparr>c_conversationId = ''c1'', c_state = st, c_createdAt = 0, c_updatedAt = 0\<rparr>"

definition storeWithConv :: "ConversationState \<Rightarrow> store" where
  "storeWithConv st = emptyStore\<lparr>conversations := [''c1'' \<mapsto> conv1 st]\<rparr>"

definition meta1 :: ReceiptMeta where
  "meta1 = \<lparr>meta_handler = ''reasoner'', meta_conversationId = ''c1'', meta_messageId = ''m1''\<rparr>"

definition claimedReceipt :: "string \<Rightarrow> timestamp \<Rightarrow> Receipt" where
  "claimedReceipt status t =
     \<lparr>r_eventId = Some ''e1'', r_handler = Some ''reasoner'', r_conversationId = Some ''c1'',
      r_messageId = Some ''m1'', r_status = status, r_claimedAt = Some t,
      r_completedAt = None, r_retriedAt = None\<rparr>"

definition storeWithReceipt :: "Receipt \<Rightarrow> store" where
  "storeWithReceipt r = emptyStore\<lparr>receipts := [''e1'' \<mapsto> r]\<rparr>"

definition uuidsA :: ApiUuids where
  "uuidsA = \<lparr>u_conversationId = ''c9'', u_messageId = ''m9'', u_eventId = ''e9''\<rparr>"

definition storeWithKey :: store where
  "storeWithKey = emptyStore\<lparr>idempotencyKeys := [''k1'' \<mapsto> \<lparr>k_messageId = ''m1'', k_createdAt = 0\<rparr>]\<rparr>"

definition request :: "json \<Rightarrow> string option \<Rightarrow> Request" where
  "request content key =
     \<lparr>body_content = content, body_conversationId = None, header_idempotencyKey = key\<rparr>"

definition uuid1 :: string where
  "uuid1 = ''123e4567-e89b-42d3-a456-426614174000''"

definition delivery :: "AgentEvent \<Rightarrow> MessagePublishedData option" where
  "delivery ev = Some \<lparr>mpd_message = Some \<lparr>msg_data = Some (Encoded ev)\<rparr>\<rparr>"

definition event1 :: AgentEvent where
  "event1 =
     \<lparr>e_eventId = ''e1'', e_eventType = reasoning_requested, e_conversationId = ''c1'',
      e_messageId = ''m1'', e_timestamp = 0, e_producer = Producer_api,
      e_payload = \<lparr>p_content = Some ''find cats'', p_intentId = None, p_action = None,
                   p_parameters = None, p_confidence = None\<rparr>\<rparr>"

definition uuidsR :: ReasonerUuids where
  "uuidsR = \<lparr>u_intentId = uuid1, u_fallbackIntentId = ''unused'', u_actionEventId = ''e2''\<rparr>"

definition crashedStore :: store where
  "crashedStore =
     emptyStore\<lparr>conversations := [''c1'' \<mapsto> conv1 INTENT_VALIDATED],
                receipts := [''e1'' \<mapsto> claimedReceipt ''processing'' 0]\<rparr>"

definition actionEvent :: "string \<Rightarrow> AgentEvent" where
  "actionEvent action =
     \<lparr>e_eventId = ''e2'', e_eventType = action_requested, e_conversationId = ''c1'',
      e_messageId = ''m1'', e_timestamp = 0, e_producer = Producer_reasoner,
      e_payload = \<lparr>p_content = None, p_intentId = Some uuid1, p_action = Some action,
                   p_parameters = Some (JObj [(''query'', JStr ''find cats'')]),
                   p_confidence = Some (Fin (92 / 100))\<rparr>\<rparr>"

text \<open>A stand-in for the conversion to a string, used where a theorem is instantiated.\<close>

definition plainString :: "json \<Rightarrow> string" where
  "plainString v = (case v of JStr s \<Rightarrow> s | _ \<Rightarrow> [])"

definition claimedStore :: store where
  "claimedStore =
     (storeWithConv ACTION_REQUESTED)\<lparr>receipts := [''e2'' \<mapsto>
        \<lparr>r_eventId = Some ''e2'', r_handler = Some ''executor'', r_conversationId = Some ''c1'',
         r_messageId = Some ''m1'', r_status = ''processing'', r_claimedAt = Some 9,
         r_completedAt = None, r_retriedAt = None\<rparr>]\<rparr>"

text \<open>
  The store that the executor sees when the action event overtakes the reasoner: the
  event is published, the conversation is still in the intent-validated state.
\<close>

definition overtakenStore :: store where
  "overtakenStore =
     (storeWithConv INTENT_VALIDATED)\<lparr>receipts := [''e2'' \<mapsto>
        \<lparr>r_eventId = Some ''e2'', r_handler = Some ''executor'', r_conversationId = Some ''c1'',
         r_messageId = Some ''m1'', r_status = ''processing'', r_claimedAt = Some 9,
         r_completedAt = None, r_retriedAt = None\<rparr>]\<rparr>"

section \<open>State machine and transitions\<close>

lemma validateTransition_table:
  "validateTransition current nextState \<longleftrightarrow> (current, nextState) \<in> set TRANSITION_TABLE"
  by (cases current; cases nextState; simp add: validateTransition_def TRANSITION_TABLE_def)

text \<open>
  C3. For a conversation in state \<open>current\<close>, \<open>transitionState\<close> succeeds and writes
  \<open>next\<close> and the new \<open>updatedAt\<close> exactly when the pair is one of the six of the
  transition table; for every other pair it throws the invalid-transition error and
  leaves the store as it was. From the three terminal states every transition fails.
\<close>

theorem transitionState_follows_table:
  "conversations s cid = Some c \<Longrightarrow>
     transitionState cid next now s =
       (if (c_state c, next) \<in> set TRANSITION_TABLE
        then (Inr (), s\<lparr>conversations := (conversations s)(cid \<mapsto>
                c\<lparr>c_state := next, c_updatedAt := now\<rparr>)\<rparr>)
        else (Inl (InvalidTransition (c_state c) next), s))
     \<and> (c_state c \<in> {ACTION_COMPLETED, FAILED_VALIDATION, FAILED_EXECUTION} \<longrightarrow>
          transitionState cid next now s = (Inl (InvalidTransition (c_state c) next), s))"
  by (auto simp add: transitionState_def assertTransition_def validateTransition_table TRANSITION_TABLE_def)

theorem transitionState_follows_table_witness:
  "conversations (storeWithConv ACTION_REQUESTED) ''c1'' = Some (conv1 ACTION_REQUESTED)
   \<and> fst (transitionState ''c1'' FAILED_EXECUTION 7 (storeWithConv ACTION_REQUESTED)) = Inr ()
   \<and> fst (transitionState ''c1'' RECEIVED 7 (storeWithConv ACTION_REQUESTED)) =
        Inl (InvalidTransition ACTION_REQUESTED RECEIVED)
   \<and> conversations (storeWithConv FAILED_EXECUTION) ''c1'' = Some (conv1 FAILED_EXECUTION)
   \<and> transitionState ''c1'' ACTION_COMPLETED 7 (storeWithConv FAILED_EXECUTION) =
        (Inl (InvalidTransition FAILED_EXECUTION ACTION_COMPLETED), storeWithConv FAILED_EXECUTION)"
  using transitionState_follows_table [of "storeWithConv ACTION_REQUESTED" "''c1''" "conv1 ACTION_REQUESTED" FAILED_EXECUTION 7]
    transitionState_follows_table [of "storeWithConv ACTION_REQUESTED" "''c1''" "conv1 ACTION_REQUESTED" RECEIVED 7]
    transitionState_follows_table [of "storeWithConv FAILED_EXECUTION" "''c1''" "conv1 FAILED_EXECUTION" ACTION_COMPLETED 7]
  by (simp add: storeWithConv_def conv1_def emptyStore_def TRANSITION_TABLE_def)

section \<open>Receipts\<close>

text \<open>
  C1. The stale threshold is 120000 ms, and \<open>claimReceipt\<close> has four outcomes: without
  a receipt it creates one with status processing and returns true; on a completed
  receipt it returns false; on a processing receipt younger than the threshold it
  returns false; on a processing receipt at least as old as the threshold it sets
  \<open>claimedAt\<close> and \<open>retriedAt\<close> to now, keeps the status processing and returns true.
  In the three cases that return false the store is unchanged.
\<close>

theorem claimReceipt_outcomes:
  "RECEIPT_STALE_THRESHOLD_MS = 120000
   \<and> (receipts s eventId = None \<longrightarrow>
        claimReceipt eventId meta now s =
          (Inr True,
           s\<lparr>receipts := (receipts s)(eventId \<mapsto>
                \<lparr>r_eventId = Some eventId, r_handler = Some (meta_handler meta),
                 r_conversationId = Some (meta_conversationId meta),
                 r_messageId = Some (meta_messageId meta), r_status = ''processing'',
                 r_claimedAt = Some now, r_completedAt = None, r_retriedAt = None\<rparr>)\<rparr>))
   \<and> (\<forall>r. receipts s eventId = Some r \<and> r_status r = ''completed'' \<longrightarrow>
        claimReceipt eventId meta now s = (Inr False, s))
   \<and> (\<forall>r claimedAt. receipts s eventId = Some r \<and> r_status r = ''processing'' \<and>
          r_claimedAt r = Some claimedAt \<and> now - claimedAt < RECEIPT_STALE_THRESHOLD_MS \<longrightarrow>
        claimReceipt eventId meta now s = (Inr False, s))
   \<and> (\<forall>r claimedAt. receipts s eventId = Some r \<and> r_status r = ''processing'' \<and>
          r_claimedAt r = Some claimedAt \<and> now - claimedAt \<ge> RECEIPT_STALE_THRESHOLD_MS \<longrightarrow>
        claimReceipt eventId meta now s =
          (Inr True,
           s\<lparr>receipts := (receipts s)(eventId \<mapsto>
                r\<lparr>r_status := ''processing'', r_claimedAt := Some now,
                  r_retriedAt := Some now\<rparr>)\<rparr>))"
  by (simp add: claimReceipt_def RECEIPT_STALE_THRESHOLD_MS_def)

theorem claimReceipt_outcomes_witness:
  "claimReceipt ''e1'' meta1 500 emptyStore =
     (Inr True, storeWithReceipt (claimedReceipt ''processing'' 500))
   \<and> claimReceipt ''e1'' meta1 500 (storeWithReceipt (claimedReceipt ''completed'' 0)) =
       (Inr False, storeWithReceipt (claimedReceipt ''completed'' 0))
   \<and> claimReceipt ''e1'' meta1 119999 (storeWithReceipt (claimedReceipt ''processing'' 0)) =
       (Inr False, storeWithReceipt (claimedReceipt ''processing'' 0))
   \<and> claimReceipt ''e1'' meta1 120000 (storeWithReceipt (claimedReceipt ''processing'' 0)) =
       (Inr True,
        storeWithReceipt ((claimedReceipt ''processing'' 120000)\<lparr>r_retriedAt := Some 120000\<rparr>))"
proof -
  let ?done = "storeWithReceipt (claimedReceipt ''completed'' 0)"
  let ?busy = "storeWithReceipt (claimedReceipt ''processing'' 0)"
  have d: "receipts emptyStore ''e1'' = None"
    by (simp add: emptyStore_def)
  have h2: "receipts ?done ''e1'' = Some (claimedReceipt ''completed'' 0) \<and>
            r_status (claimedReceipt ''completed'' 0) = ''completed''"
    by (simp add: storeWithReceipt_def claimedReceipt_def)
  have h3: "receipts ?busy ''e1'' = Some (claimedReceipt ''processing'' 0) \<and>
            r_status (claimedReceipt ''processing'' 0) = ''processing'' \<and>
            r_claimedAt (claimedReceipt ''processing'' 0) = Some 0 \<and>
            119999 - 0 < RECEIPT_STALE_THRESHOLD_MS"
    by (simp add: storeWithReceipt_def claimedReceipt_def RECEIPT_STALE_THRESHOLD_MS_def)
  have h4: "receipts ?busy ''e1'' = Some (claimedReceipt ''processing'' 0) \<and>
            r_status (claimedReceipt ''processing'' 0) = ''processing'' \<and>
            r_claimedAt (claimedReceipt ''processing'' 0) = Some 0 \<and>
            120000 - 0 \<ge> RECEIPT_STALE_THRESHOLD_MS"
    by (simp add: storeWithReceipt_def claimedReceipt_def RECEIPT_STALE_THRESHOLD_MS_def)
  have c1: "claimReceipt ''e1'' meta1 500 emptyStore =
              (Inr True, storeWithReceipt (claimedReceipt ''processing'' 500))"
    using claimReceipt_outcomes [of emptyStore "''e1''" meta1 500] d
    by (simp add: storeWithReceipt_def claimedReceipt_def emptyStore_def meta1_def)
  have c2: "claimReceipt ''e1'' meta1 500 ?done = (Inr False, ?done)"
    using claimReceipt_outcomes [of ?done "''e1''" meta1 500] h2 by blast
  have c3: "claimReceipt ''e1'' meta1 119999 ?busy = (Inr False, ?busy)"
    using claimReceipt_outcomes [of ?busy "''e1''" meta1 119999] h3 by blast
  have "claimReceipt ''e1'' meta1 120000 ?busy =
          (Inr True, ?busy\<lparr>receipts := (receipts ?busy)(''e1'' \<mapsto>
             (claimedReceipt ''processing'' 0)\<lparr>r_status := ''processing'',
                r_claimedAt := Some 120000, r_retriedAt := Some 120000\<rparr>)\<rparr>)"
    using claimReceipt_outcomes [of ?busy "''e1''" meta1 120000] h4 by blast
  then have c4: "claimReceipt ''e1'' meta1 120000 ?busy =
      (Inr True,
       storeWithReceipt ((claimedReceipt ''processing'' 120000)\<lparr>r_retriedAt := Some 120000\<rparr>))"
    by (simp add: storeWithReceipt_def claimedReceipt_def emptyStore_def)
  from c1 c2 c3 c4 show ?thesis by blast
qed

text \<open>
  C6. \<open>completeReceipt\<close> never fails and is a merge write. On an existing receipt it
  sets the status to completed and \<open>completedAt\<close> to now and keeps every other field of
  the receipt; without a receipt it creates one that holds just these two fields. Nothing
  else in the store changes. A second call succeeds as well, leaves the status as the
  first call left it, gives the store that a single call at the later clock reading
  gives, and at the same clock reading leaves the store as the first call left it.
\<close>

theorem completeReceipt_upsert:
  "fst (completeReceipt eventId now s) = Inr ()
   \<and> (\<forall>r. receipts s eventId = Some r \<longrightarrow>
         snd (completeReceipt eventId now s) =
           s\<lparr>receipts := (receipts s)(eventId \<mapsto>
                r\<lparr>r_status := ''completed'', r_completedAt := Some now\<rparr>)\<rparr>
         \<and> (\<exists>r'. receipts (snd (completeReceipt eventId now s)) eventId = Some r' \<and>
                r_eventId r' = r_eventId r \<and> r_handler r' = r_handler r \<and>
                r_conversationId r' = r_conversationId r \<and> r_messageId r' = r_messageId r \<and>
                r_claimedAt r' = r_claimedAt r \<and> r_retriedAt r' = r_retriedAt r))
   \<and> (receipts s eventId = None \<longrightarrow>
         snd (completeReceipt eventId now s) =
           s\<lparr>receipts := (receipts s)(eventId \<mapsto>
                \<lparr>r_eventId = None, r_handler = None, r_conversationId = None,
                 r_messageId = None, r_status = ''completed'', r_claimedAt = None,
                 r_completedAt = Some now, r_retriedAt = None\<rparr>)\<rparr>)
   \<and> (\<exists>r. receipts (snd (completeReceipt eventId now s)) eventId = Some r \<and>
          r_status r = ''completed'' \<and> r_completedAt r = Some now \<and>
          snd (completeReceipt eventId now s) = s\<lparr>receipts := (receipts s)(eventId \<mapsto> r)\<rparr>)
   \<and> fst (completeReceipt eventId later (snd (completeReceipt eventId now s))) = Inr ()
   \<and> map_option r_status
        (receipts (snd (completeReceipt eventId later (snd (completeReceipt eventId now s)))) eventId) =
      map_option r_status (receipts (snd (completeReceipt eventId now s)) eventId)
   \<and> snd (completeReceipt eventId later (snd (completeReceipt eventId now s))) =
      snd (completeReceipt eventId later s)
   \<and> snd (completeReceipt eventId now (snd (completeReceipt eventId now s))) =
      snd (completeReceipt eventId now s)"
  by (simp add: completeReceipt_def split: option.split)

theorem completeReceipt_upsert_witness:
  "receipts emptyStore ''e1'' = None
   \<and> completeReceipt ''e1'' 9 emptyStore =
       (Inr (), storeWithReceipt
          \<lparr>r_eventId = None, r_handler = None, r_conversationId = None, r_messageId = None,
           r_status = ''completed'', r_claimedAt = None, r_completedAt = Some 9,
           r_retriedAt = None\<rparr>)
   \<and> receipts (storeWithReceipt (claimedReceipt ''processing'' 0)) ''e1'' =
       Some (claimedReceipt ''processing'' 0)
   \<and> completeReceipt ''e1'' 9 (storeWithReceipt (claimedReceipt ''processing'' 0)) =
       (Inr (), storeWithReceipt
          \<lparr>r_eventId = Some ''e1'', r_handler = Some ''reasoner'',
           r_conversationId = Some ''c1'', r_messageId = Some ''m1'',
           r_status = ''completed'', r_claimedAt = Some 0, r_completedAt = Some 9,
           r_retriedAt = None\<rparr>)"
proof -
  let ?busy = "storeWithReceipt (claimedReceipt ''processing'' 0)"
  have absent: "receipts emptyStore ''e1'' = None"
    by (simp add: emptyStore_def)
  have present: "receipts ?busy ''e1'' = Some (claimedReceipt ''processing'' 0)"
    by (simp add: storeWithReceipt_def)
  note fresh = completeReceipt_upsert [of "''e1''" 9 emptyStore 9]
  note merge = completeReceipt_upsert [of "''e1''" 9 ?busy 9]
  from fresh have ok1: "fst (completeReceipt ''e1'' 9 emptyStore) = Inr ()"
    by (rule conjunct1)
  from fresh absent have "snd (completeReceipt ''e1'' 9 emptyStore) =
      emptyStore\<lparr>receipts := (receipts emptyStore)(''e1'' \<mapsto>
         \<lparr>r_eventId = None, r_handler = None, r_conversationId = None,
          r_messageId = None, r_status = ''completed'', r_claimedAt = None,
          r_completedAt = Some 9, r_retriedAt = None\<rparr>)\<rparr>"
    by blast
  then have s1: "snd (completeReceipt ''e1'' 9 emptyStore) =
      storeWithReceipt
          \<lparr>r_eventId = None, r_handler = None, r_conversationId = None, r_messageId = None,
           r_status = ''completed'', r_claimedAt = None, r_completedAt = Some 9,
           r_retriedAt = None\<rparr>"
    by (simp add: storeWithReceipt_def emptyStore_def)
  from merge have ok2: "fst (completeReceipt ''e1'' 9 ?busy) = Inr ()"
    by (rule conjunct1)
  from merge present have "snd (completeReceipt ''e1'' 9 ?busy) =
      ?busy\<lparr>receipts := (receipts ?busy)(''e1'' \<mapsto>
         (claimedReceipt ''processing'' 0)\<lparr>r_status := ''completed'',
            r_completedAt := Some 9\<rparr>)\<rparr>"
    by blast
  then have s2: "snd (completeReceipt ''e1'' 9 ?busy) =
      storeWithReceipt
          \<lparr>r_eventId = Some ''e1'', r_handler = Some ''reasoner'',
           r_conversationId = Some ''c1'', r_messageId = Some ''m1'',
           r_status = ''completed'', r_claimedAt = Some 0, r_completedAt = Some 9,
           r_retriedAt = None\<rparr>"
    by (simp add: storeWithReceipt_def claimedReceipt_def emptyStore_def)
  from ok1 s1 have r1: "completeReceipt ''e1'' 9 emptyStore =
       (Inr (), storeWithReceipt
          \<lparr>r_eventId = None, r_handler = None, r_conversationId = None, r_messageId = None,
           r_status = ''completed'', r_claimedAt = None, r_completedAt = Some 9,
           r_retriedAt = None\<rparr>)"
    by (simp add: prod_eq_iff)
  from ok2 s2 have r2: "completeReceipt ''e1'' 9 ?busy =
       (Inr (), storeWithReceipt
          \<lparr>r_eventId = Some ''e1'', r_handler = Some ''reasoner'',
           r_conversationId = Some ''c1'', r_messageId = Some ''m1'',
           r_status = ''completed'', r_claimedAt = Some 0, r_completedAt = Some 9,
           r_retriedAt = None\<rparr>)"
    by (simp add: prod_eq_iff)
  from absent present r1 r2 show ?thesis
    by blast
qed

lemma claimReceipt_frame:
  "claimReceipt e m n s = (r, s1) \<Longrightarrow> \<exists>f. s1 = s\<lparr>receipts := f\<rparr>"
  by (auto simp add: claimReceipt_def Let_def split: option.splits bool.splits if_splits
      intro: exI [of _ "receipts s"])

section \<open>Ingress\<close>

text \<open>
  C7. A request whose body has no \<open>content\<close>, or whose \<open>content\<close> is not a string,
  or whose \<open>content\<close> is the empty string, is answered with status 400 and the error
  text \<open>BAD_CONTENT\<close>; the store and the bus are left exactly as they were.
\<close>

theorem post_messages_rejects_bad_content:
  "body_content req = JUndefined \<or> \<not> isString (body_content req) \<or> body_content req = JStr [] \<Longrightarrow>
     post_messages req uuids now s = ((400, JObj [(''error'', JStr BAD_CONTENT)]), s)"
  by (auto simp add: post_messages_def isString_def)

theorem post_messages_rejects_bad_content_witness:
  "post_messages (request JUndefined None) uuidsA 5 emptyStore =
     ((400, JObj [(''error'', JStr BAD_CONTENT)]), emptyStore)
   \<and> post_messages (request (JNum (Fin 7)) None) uuidsA 5 emptyStore =
     ((400, JObj [(''error'', JStr BAD_CONTENT)]), emptyStore)
   \<and> post_messages (request (JStr []) None) uuidsA 5 emptyStore =
     ((400, JObj [(''error'', JStr BAD_CONTENT)]), emptyStore)"
proof -
  have h1: "body_content (request JUndefined None) = JUndefined"
    by (simp add: request_def)
  have h2: "\<not> isString (body_content (request (JNum (Fin 7)) None))"
    by (simp add: request_def isString_def)
  have h3: "body_content (request (JStr []) None) = JStr []"
    by (simp add: request_def)
  show ?thesis
    using post_messages_rejects_bad_content [of "request JUndefined None" uuidsA 5 emptyStore]
      post_messages_rejects_bad_content [of "request (JNum (Fin 7)) None" uuidsA 5 emptyStore]
      post_messages_rejects_bad_content [of "request (JStr []) None" uuidsA 5 emptyStore]
      h1 h2 h3
    by blast
qed

text \<open>
  C4. A request whose \<open>content\<close> is a non-empty string and whose non-empty
  idempotency key is already in the store is answered with status 200, the
  message id stored under the key and \<open>duplicate: true\<close>; the store and the bus are
  left exactly as they were, so no conversation, message or event-log entry is written,
  nothing is published and no state changes.
\<close>

theorem post_messages_duplicate_key:
  "body_content req = JStr content \<Longrightarrow> content \<noteq> [] \<Longrightarrow>
   header_idempotencyKey req = Some key \<Longrightarrow> key \<noteq> [] \<Longrightarrow>
   idempotencyKeys s key = Some d \<Longrightarrow>
     post_messages req uuids now s =
       ((200, JObj [(''messageId'', JStr (k_messageId d)),
                    (''duplicate'', JBool True),
                    (''message'', JStr ''Request already processed'')]), s)"
  by (simp add: post_messages_def isString_def acceptMessage_def andThen_def ret_def
      claimIdempotencyKey_def stringOr_def Let_def)

theorem post_messages_duplicate_key_witness:
  "post_messages (request (JStr ''hi'') (Some ''k1'')) uuidsA 5 storeWithKey =
     ((200, JObj [(''messageId'', JStr ''m1''),
                  (''duplicate'', JBool True),
                  (''message'', JStr ''Request already processed'')]), storeWithKey)"
proof -
  have "body_content (request (JStr ''hi'') (Some ''k1'')) = JStr ''hi''"
    and "''hi'' \<noteq> []"
    and "header_idempotencyKey (request (JStr ''hi'') (Some ''k1'')) = Some ''k1''"
    and "''k1'' \<noteq> []"
    and "idempotencyKeys storeWithKey ''k1'' = Some \<lparr>k_messageId = ''m1'', k_createdAt = 0\<rparr>"
    by (simp_all add: request_def storeWithKey_def)
  from post_messages_duplicate_key [OF this, of uuidsA 5] show ?thesis
    by simp
qed

text \<open>
  The condition on the body is needed: a request with a claimed key and no \<open>content\<close>
  is answered 400, since the body is checked before the key is read.
\<close>

theorem post_messages_duplicate_key_counterexample:
  "header_idempotencyKey (request JUndefined (Some ''k1'')) = Some ''k1''
   \<and> idempotencyKeys storeWithKey ''k1'' = Some \<lparr>k_messageId = ''m1'', k_createdAt = 0\<rparr>
   \<and> fst (fst (post_messages (request JUndefined (Some ''k1'')) uuidsA 5 storeWithKey)) = 400
   \<and> fst (fst (post_messages (request JUndefined (Some ''k1'')) uuidsA 5 storeWithKey)) \<noteq> 200"
  by (simp add: post_messages_def request_def storeWithKey_def)

section \<open>Schema validation\<close>

lemma parse_intentId_empty:
  "parse_intentId v = [] \<longleftrightarrow> (case v of JStr s \<Rightarrow> isUuid s | _ \<Rightarrow> False)"
  by (simp add: parse_intentId_def split: json.split)

lemma parse_nonEmpty_empty:
  "parse_nonEmpty key v = [] \<longleftrightarrow> (case v of JStr s \<Rightarrow> s \<noteq> [] | _ \<Rightarrow> False)"
  by (simp add: parse_nonEmpty_def split: json.split)

lemma parse_action_empty:
  "parse_action v = [] \<longleftrightarrow>
     (case v of JStr a \<Rightarrow> a \<in> {''search'', ''calculate'', ''summarize'', ''translate''}
      | _ \<Rightarrow> False)"
  by (simp add: parse_action_def ACTIONS_def split: json.split)

lemma parse_parameters_empty: "parse_parameters v = [] \<longleftrightarrow> isObject v"
  by (simp add: parse_parameters_def isObject_def split: json.split)

lemma parse_confidence_empty:
  "parse_confidence v = [] \<longleftrightarrow>
     (case v of JNum (Fin q) \<Rightarrow> 0 \<le> q \<and> q \<le> 1 | _ \<Rightarrow> False)"
  by (auto simp add: parse_confidence_def split: json.split jsnum.split)

lemma safeParse_success_iff:
  "(\<exists>d. IntentSchema_safeParse raw = Success d) \<longleftrightarrow> intentShape raw"
  by (cases raw)
     (simp_all add: IntentSchema_safeParse_def intentShape_def isObject_def Let_def
        parse_intentId_empty parse_nonEmpty_empty parse_action_empty
        parse_parameters_empty [unfolded isObject_def] parse_confidence_empty
        del: field.simps)

lemma joinWith_nonempty: "xs \<noteq> [] \<Longrightarrow> hd xs \<noteq> [] \<Longrightarrow> joinWith sep xs \<noteq> []"
  by (cases "(sep, xs)" rule: joinWith.cases) auto

lemma safeParse_failure_nonempty:
  "IntentSchema_safeParse raw = Failure issues \<Longrightarrow> issues \<noteq> []"
  by (auto simp add: IntentSchema_safeParse_def Let_def split: json.splits if_splits)

lemma safeParse_success_data:
  "IntentSchema_safeParse raw = Success d \<Longrightarrow>
     d = JObj (map (\<lambda>k. (k, field k raw))
           [''intentId'', ''conversationId'', ''messageId'', ''action'',
            ''parameters'', ''confidence''])"
  by (auto simp add: IntentSchema_safeParse_def Let_def simp del: field.simps
      split: json.splits if_splits)

lemma render_issues_nonempty:
  "issues \<noteq> [] \<Longrightarrow>
     joinWith ''; '' (map (\<lambda>i. joinWith ''.'' (path i) @ '': '' @ message i) issues) \<noteq> []"
  by (rule joinWith_nonempty) (simp_all add: hd_map)

lemma validateIntent_on_shape:
  assumes "intentShape raw"
  shows "validateIntent raw =
           \<lparr>valid = True,
            data = Some (JObj (map (\<lambda>k. (k, field k raw))
                     [''intentId'', ''conversationId'', ''messageId'', ''action'',
                      ''parameters'', ''confidence''])),
            error = None\<rparr>"
proof (cases "IntentSchema_safeParse raw")
  case (Success d)
  then have "validateIntent raw = \<lparr>valid = True, data = Some d, error = None\<rparr>"
    by (simp add: validateIntent_def)
  with safeParse_success_data [OF Success] show ?thesis
    by simp
next
  case (Failure issues)
  with assms safeParse_success_iff [of raw] show ?thesis
    by auto
qed

lemma validateIntent_off_shape:
  assumes "\<not> intentShape raw"
  shows "\<exists>e. e \<noteq> [] \<and> validateIntent raw = \<lparr>valid = False, data = None, error = Some e\<rparr>"
proof (cases "IntentSchema_safeParse raw")
  case (Success d)
  with assms safeParse_success_iff [of raw] show ?thesis
    by blast
next
  case (Failure issues)
  then have "issues \<noteq> []"
    by (rule safeParse_failure_nonempty)
  then have "joinWith ''; '' (map (\<lambda>i. joinWith ''.'' (path i) @ '': '' @ message i) issues) \<noteq> []"
    by (rule render_issues_nonempty)
  with Failure show ?thesis
    by (simp add: validateIntent_def)
qed

text \<open>
  C5. \<open>validateIntent\<close> is a total function with no error outcome. On a value of the
  shape of an intent it returns valid with the six fields as data and no error text; on
  every other value it returns not valid, no data and an error text that is not empty.
\<close>

theorem validateIntent_total:
  "(intentShape raw \<longrightarrow>
      validateIntent raw =
        \<lparr>valid = True,
         data = Some (JObj (map (\<lambda>k. (k, field k raw))
                  [''intentId'', ''conversationId'', ''messageId'', ''action'',
                   ''parameters'', ''confidence''])),
         error = None\<rparr>)
   \<and> (\<not> intentShape raw \<longrightarrow>
      (\<exists>e. e \<noteq> [] \<and> validateIntent raw = \<lparr>valid = False, data = None, error = Some e\<rparr>))"
  using validateIntent_on_shape [of raw] validateIntent_off_shape [of raw]
  by blast

lemma isUuid_uuid1: "isUuid uuid1"
  by (simp add: isUuid_def uuid1_def uuidShape_def charClass_def eval_nat_numeral)

theorem validateIntent_total_witness:
  "intentShape (intentCandidate uuid1 ''c1'' ''m1'' ''search'' (JObj []) (1 / 2))
   \<and> valid (validateIntent (intentCandidate uuid1 ''c1'' ''m1'' ''search'' (JObj []) (1 / 2)))
   \<and> \<not> intentShape (intentCandidate uuid1 ''c1'' ''m1'' ''dance'' (JObj []) (1 / 2))
   \<and> \<not> valid (validateIntent (intentCandidate uuid1 ''c1'' ''m1'' ''dance'' (JObj []) (1 / 2)))
   \<and> \<not> intentShape JNull
   \<and> error (validateIntent JNull) = Some '': Expected object, received null''"
proof -
  have a: "intentShape (intentCandidate uuid1 ''c1'' ''m1'' ''search'' (JObj []) (1 / 2))"
    using isUuid_uuid1 by (simp add: intentShape_def intentCandidate_def isObject_def)
  have b: "\<not> intentShape (intentCandidate uuid1 ''c1'' ''m1'' ''dance'' (JObj []) (1 / 2))"
    by (simp add: intentShape_def intentCandidate_def isObject_def)
  have c: "\<not> intentShape JNull"
    by (simp add: intentShape_def isObject_def)
  have d: "error (validateIntent JNull) = Some '': Expected object, received null''"
    by (simp add: validateIntent_def IntentSchema_safeParse_def invalid_type_def)
  from validateIntent_total [of "intentCandidate uuid1 ''c1'' ''m1'' ''search'' (JObj []) (1 / 2)"] a
  have a': "valid (validateIntent (intentCandidate uuid1 ''c1'' ''m1'' ''search'' (JObj []) (1 / 2)))"
    by simp
  from validateIntent_total [of "intentCandidate uuid1 ''c1'' ''m1'' ''dance'' (JObj []) (1 / 2)"] b
  have b': "\<not> valid (validateIntent (intentCandidate uuid1 ''c1'' ''m1'' ''dance'' (JObj []) (1 / 2)))"
    by auto
  from a a' b b' c d show ?thesis by blast
qed

lemma mockReasoning_shape:
  "isUuid uuid \<Longrightarrow> conversationId \<noteq> [] \<Longrightarrow> messageId \<noteq> [] \<Longrightarrow>
     intentShape (mockReasoning content conversationId messageId uuid)"
  by (simp add: mockReasoning_def intentCandidate_def intentShape_def isObject_def Let_def)

lemma validateIntent_valid_iff: "valid (validateIntent raw) \<longleftrightarrow> error (validateIntent raw) = None"
  by (simp add: validateIntent_def split: SafeParse.split)

section \<open>Reasoner\<close>

lemma preserves_andThen:
  "preserves I m \<Longrightarrow> (\<And>x. preserves I (f x)) \<Longrightarrow> preserves I (andThen m f)"
  unfolding preserves_def andThen_def
proof (intro allI impI)
  fix s
  assume m: "\<forall>s. I s \<longrightarrow> I (snd (m s))" and f: "\<And>x. \<forall>s. I s \<longrightarrow> I (snd (f x s))" and s: "I s"
  from m s have "I (snd (m s))" by blast
  with f show "I (snd (case m s of (Inl e, s') \<Rightarrow> (Inl e, s') | (Inr x, s') \<Rightarrow> f x s'))"
    by (cases "m s"; cases "fst (m s)") auto
qed

lemma preserves_ret: "preserves I (ret x)"
  by (simp add: preserves_def ret_def)

lemma preserves_claimReceipt:
  "(\<And>s f. I (s\<lparr>receipts := f\<rparr>) = I s) \<Longrightarrow> preserves I (claimReceipt e m n)"
  by (auto simp add: preserves_def claimReceipt_def Let_def split: option.split bool.split)

lemma preserves_completeReceipt:
  "(\<And>s f. I (s\<lparr>receipts := f\<rparr>) = I s) \<Longrightarrow> preserves I (completeReceipt e n)"
  by (simp add: preserves_def completeReceipt_def)

lemma preserves_logEvent:
  "(\<And>s f. I (s\<lparr>events := f\<rparr>) = I s) \<Longrightarrow> preserves I (logEvent c e t p n)"
  by (simp add: preserves_def logEvent_def)

lemma preserves_publishEvent:
  "(\<And>s f. I (s\<lparr>published := f\<rparr>) = I s) \<Longrightarrow> preserves I (publishEvent t ev)"
  by (simp add: preserves_def publishEvent_def)


lemma preserves_transitionState_other:
  "(\<And>s f. I (s\<lparr>conversations := f\<rparr>) = I s) \<Longrightarrow> preserves I (transitionState c st n)"
  by (simp add: preserves_def transitionState_def split: option.split sum.split)

lemma preserves_saveIntent:
  "(i_valid d \<longleftrightarrow> i_validationError d = None) \<Longrightarrow> preserves (intentsFrom s0) (saveIntent d)"
  by (simp add: preserves_def saveIntent_def intentsFrom_def)


lemma intentDoc_valid_iff:
  "i_valid (intentDoc raw (validateIntent raw) c m u n) \<longleftrightarrow>
   i_validationError (intentDoc raw (validateIntent raw) c m u n) = None"
  by (simp add: intentDoc_def validateIntent_def split: SafeParse.split)

lemma processReasoning_intentsFrom:
  "preserves (intentsFrom s0) (processReasoning ev uuids now)"
proof -
  have frame: "\<And>s f. intentsFrom s0 (s\<lparr>receipts := f\<rparr>) = intentsFrom s0 s"
    "\<And>s f. intentsFrom s0 (s\<lparr>events := f\<rparr>) = intentsFrom s0 s"
    "\<And>s f. intentsFrom s0 (s\<lparr>published := f\<rparr>) = intentsFrom s0 s"
    "\<And>s f. intentsFrom s0 (s\<lparr>conversations := f\<rparr>) = intentsFrom s0 s"
    by (simp_all add: intentsFrom_def)
  show ?thesis
    by (simp add: processReasoning_def Let_def preserves_andThen preserves_ret
        preserves_claimReceipt preserves_completeReceipt preserves_logEvent
        preserves_publishEvent preserves_transitionState_other preserves_saveIntent
        intentDoc_valid_iff frame)
qed

lemma mockReasoning_valid:
  "isUuid uuid \<Longrightarrow> conversationId \<noteq> [] \<Longrightarrow> messageId \<noteq> [] \<Longrightarrow>
     valid (validateIntent (mockReasoning content conversationId messageId uuid))"
  using validateIntent_on_shape [of "mockReasoning content conversationId messageId uuid"]
    mockReasoning_shape [of uuid conversationId messageId content]
  by simp


lemma uuid1_nonempty: "uuid1 \<noteq> []"
  by (simp add: uuid1_def)

lemma mock_find: "mockReasoning ''find cats'' c m u =
   intentCandidate u c m ''search'' (JObj [(''query'', JStr ''find cats'')]) (92 / 100)"
  by (simp add: mockReasoning_def toLowerCase_def lowerChar_def Let_def)

lemma run1_intents:
  "intents (snd (reasoner (delivery event1) uuidsR 5 (storeWithConv REASONING_REQUESTED))) (''c1'', uuid1) =
     Some \<lparr>i_intentId = uuid1, i_conversationId = ''c1'', i_messageId = ''m1'',
           i_action = ''search'', i_parameters = JObj [(''query'', JStr ''find cats'')],
           i_confidence = Fin (92 / 100), i_createdAt = 5, i_valid = True,
           i_validationError = None\<rparr>"
  using isUuid_uuid1 uuid1_nonempty
  by (simp add: reasoner_def processReasoning_def delivery_def decodeEventData_def event1_def
      uuidsR_def storeWithConv_def emptyStore_def conv1_def andThen_def ret_def
      claimReceipt_def mock_find mockReasoning_valid intentDoc_def intentCandidate_def
      stringOr_def valueOr_def numberOr_def saveIntent_def logEvent_def transitionState_def
      assertTransition_def validateTransition_def publishEvent_def completeReceipt_def
      validateIntent_on_shape intentShape_def isObject_def Let_def)


text \<open>
  C9. The intent document that the reasoner builds from a reasoning output and its
  validation has \<open>valid\<close> true exactly when it carries no validation error, for every
  output, passing or failing. Every intent that a run of the reasoner leaves in the
  store was there before or has this property.
\<close>

theorem reasoner_intent_valid_iff_no_error:
  "(i_valid (intentDoc raw (validateIntent raw) conversationId messageId uuid now) \<longleftrightarrow>
      i_validationError (intentDoc raw (validateIntent raw) conversationId messageId uuid now) = None)
   \<and> (\<forall>k d. intents (snd (reasoner event_data uuids now s)) k = Some d \<longrightarrow>
          intents s k = Some d \<or> (i_valid d \<longleftrightarrow> i_validationError d = None))"
proof -
  have "intentsFrom s (snd (reasoner event_data uuids now s))"
  proof (cases "decodeEventData event_data")
    case (Inl e)
    then show ?thesis by (simp add: reasoner_def intentsFrom_def)
  next
    case (Inr ev)
    have "intentsFrom s s" by (simp add: intentsFrom_def)
    with processReasoning_intentsFrom [of s ev uuids now] Inr show ?thesis
      by (simp add: reasoner_def preserves_def)
  qed
  then show ?thesis
    using intentDoc_valid_iff [of raw conversationId messageId uuid now]
    unfolding intentsFrom_def by blast
qed

theorem reasoner_intent_valid_iff_no_error_witness:
  "intents (storeWithConv REASONING_REQUESTED) (''c1'', uuid1) = None
   \<and> (\<exists>d. intents (snd (reasoner (delivery event1) uuidsR 5 (storeWithConv REASONING_REQUESTED)))
             (''c1'', uuid1) = Some d
          \<and> i_valid d \<and> i_validationError d = None)"
proof -
  have none: "intents (storeWithConv REASONING_REQUESTED) (''c1'', uuid1) = None"
    by (simp add: storeWithConv_def emptyStore_def)
  from run1_intents obtain d where
    d: "intents (snd (reasoner (delivery event1) uuidsR 5 (storeWithConv REASONING_REQUESTED)))
          (''c1'', uuid1) = Some d" and v: "i_valid d"
    by simp
  from reasoner_intent_valid_iff_no_error
         [of JNull "''c1''" "''m1''" uuid1 5 "delivery event1" uuidsR "storeWithConv REASONING_REQUESTED"]
  have "\<forall>k d. intents (snd (reasoner (delivery event1) uuidsR 5 (storeWithConv REASONING_REQUESTED))) k = Some d \<longrightarrow>
          intents (storeWithConv REASONING_REQUESTED) k = Some d \<or>
          (i_valid d \<longleftrightarrow> i_validationError d = None)"
    by (rule conjunct2)
  with d have "intents (storeWithConv REASONING_REQUESTED) (''c1'', uuid1) = Some d \<or>
          (i_valid d \<longleftrightarrow> i_validationError d = None)"
    by blast
  with none v have "i_validationError d = None"
    by simp
  with none d v show ?thesis by blast
qed



text \<open>
  Once the receipt is claimed for a conversation in the intent-validated state, every
  run of the reasoner ends in the error of the transition it attempts first; nothing is
  published and the conversation is left as it was.
\<close>

lemma reasoner_throws_from_intent_validated:
  assumes dec: "decodeEventData event_data = Inr ev"
    and claim: "claimReceipt (e_eventId ev)
                  \<lparr>meta_handler = ''reasoner'', meta_conversationId = e_conversationId ev,
                   meta_messageId = e_messageId ev\<rparr> now s = (Inr True, s1)"
    and conv: "conversations s (e_conversationId ev) = Some c"
    and st: "c_state c = INTENT_VALIDATED"
  shows "(\<exists>nextState. fst (reasoner event_data uuids now s) =
                         Inl (InvalidTransition INTENT_VALIDATED nextState))
         \<and> published (snd (reasoner event_data uuids now s)) = published s
         \<and> conversations (snd (reasoner event_data uuids now s)) = conversations s"
proof -
  from claimReceipt_frame [OF claim] obtain f where s1: "s1 = s\<lparr>receipts := f\<rparr>"
    by blast
  from claim have claim': "claimReceipt (e_eventId ev)
                  \<lparr>meta_handler = ''reasoner'', meta_conversationId = e_conversationId ev,
                   meta_messageId = e_messageId ev\<rparr> now s = (Inr True, s\<lparr>receipts := f\<rparr>)"
    by (simp add: s1)
  show ?thesis
    using dec claim' conv st
    by (simp add: reasoner_def processReasoning_def Let_def andThen_def saveIntent_def
        logEvent_def transitionState_def assertTransition_def validateTransition_def)
qed

text \<open>
  C2. A replay of a delivery finds the conversation already in the intent-validated
  state: the first worker crashed after that transition, and its receipt has gone stale.
  The run of the reasoner reclaims the receipt and attempts the transition to the same
  state; the error of that transition is not caught. The handler throws, publishes
  nothing, and leaves the conversation in the intent-validated state and the receipt in
  processing, where the specification has it go on to publish and to request the action.
\<close>

theorem reasoner_replay_after_crash:
  "fst (reasoner (delivery event1) uuidsR 120000 crashedStore) =
     Inl (InvalidTransition INTENT_VALIDATED INTENT_VALIDATED)
   \<and> published (snd (reasoner (delivery event1) uuidsR 120000 crashedStore)) = []
   \<and> map_option c_state
        (conversations (snd (reasoner (delivery event1) uuidsR 120000 crashedStore)) ''c1'') =
      Some INTENT_VALIDATED
   \<and> map_option r_status
        (receipts (snd (reasoner (delivery event1) uuidsR 120000 crashedStore)) ''e1'') =
      Some ''processing''"
  using isUuid_uuid1 uuid1_nonempty
  by (simp add: reasoner_def processReasoning_def delivery_def decodeEventData_def event1_def
      uuidsR_def crashedStore_def emptyStore_def conv1_def claimedReceipt_def andThen_def ret_def
      claimReceipt_def RECEIPT_STALE_THRESHOLD_MS_def mock_find mockReasoning_valid
      intentDoc_def intentCandidate_def
      stringOr_def valueOr_def numberOr_def saveIntent_def logEvent_def transitionState_def
      assertTransition_def validateTransition_def publishEvent_def completeReceipt_def
      validateIntent_on_shape intentShape_def isObject_def Let_def)

section \<open>Executor\<close>

text \<open>
  C8. For a delivery that decodes, whose receipt claim returns true and for whose intent
  no action result exists, and whose conversation is in the action-requested state: the
  executor acknowledges; the action result is stored with the success flag and the error
  of the tool; the conversation moves to the action-completed state when the tool
  succeeded and to the failed-execution state when it did not; the receipt is completed.
  A tool that does not succeed returns the error text of the unknown action.
\<close>

theorem executor_tool_outcome:
  assumes dec: "decodeEventData event_data = Inr ev"
    and claim: "claimReceipt (e_eventId ev)
                  \<lparr>meta_handler = ''executor'', meta_conversationId = e_conversationId ev,
                   meta_messageId = e_messageId ev\<rparr> now s = (Inr True, s1)"
    and iid: "p_intentId (e_payload ev) = Some intentId"
    and fresh: "findActionResultByIntentId (e_conversationId ev) intentId s1 = (Inr False, s1)"
    and conv: "conversations s (e_conversationId ev) = Some c"
    and st: "c_state c = ACTION_REQUESTED"
  shows "let tool = executeTool js_String (p_action (e_payload ev))
                      (case p_parameters (e_payload ev) of
                         Some p \<Rightarrow> valueOr p (JObj []) | None \<Rightarrow> JObj []);
             s' = snd (executor js_String event_data actionUuid now s)
         in fst (executor js_String event_data actionUuid now s) = Inr ()
            \<and> map_of (actions s') (e_conversationId ev, actionUuid) =
                Some \<lparr>a_actionId = actionUuid, a_conversationId = e_conversationId ev,
                      a_intentId = intentId, a_messageId = e_messageId ev,
                      a_result = t_result tool, a_executedAt = now,
                      a_success = t_success tool, a_error = t_error tool\<rparr>
            \<and> conversations s' (e_conversationId ev) =
                Some (c\<lparr>c_state := (if t_success tool then ACTION_COMPLETED else FAILED_EXECUTION),
                        c_updatedAt := now\<rparr>)
            \<and> map_option r_status (receipts s' (e_eventId ev)) = Some ''completed''
            \<and> (\<not> t_success tool \<longrightarrow>
                 t_error tool = Some (''Unknown action: '' @
                   (case p_action (e_payload ev) of None \<Rightarrow> ''undefined'' | Some a \<Rightarrow> a)))"
proof -
  from claimReceipt_frame [OF claim] obtain f where s1: "s1 = s\<lparr>receipts := f\<rparr>"
    by blast
  from fresh have fresh': "findActionResultByIntentId (e_conversationId ev) intentId (s\<lparr>receipts := f\<rparr>) =
      (Inr False, s\<lparr>receipts := f\<rparr>)"
    by (simp add: s1)
  from claim have claim': "claimReceipt (e_eventId ev)
                  \<lparr>meta_handler = ''executor'', meta_conversationId = e_conversationId ev,
                   meta_messageId = e_messageId ev\<rparr> now s = (Inr True, s\<lparr>receipts := f\<rparr>)"
    by (simp add: s1)
  have err: "\<And>a p. \<not> t_success (executeTool js_String a p) \<Longrightarrow>
      t_error (executeTool js_String a p) =
        Some (''Unknown action: '' @ (case a of None \<Rightarrow> ''undefined'' | Some x \<Rightarrow> x))"
    by (simp add: executeTool_def split: if_splits)
  show ?thesis
    using dec claim' iid fresh' conv st err
    by (simp add: executor_def processAction_def Let_def andThen_def saveActionResult_def
        logEvent_def transitionState_def assertTransition_def validateTransition_def
        completeReceipt_def split: option.split)
qed

theorem executor_tool_outcome_witness:
  "fst (executor plainString (delivery (actionEvent ''dance'')) ''a1'' 9
          (storeWithConv ACTION_REQUESTED)) = Inr ()
   \<and> map_option c_state
        (conversations (snd (executor plainString (delivery (actionEvent ''dance'')) ''a1'' 9
                               (storeWithConv ACTION_REQUESTED))) ''c1'') = Some FAILED_EXECUTION
   \<and> map_option a_error
        (map_of (actions (snd (executor plainString (delivery (actionEvent ''dance'')) ''a1'' 9
                                 (storeWithConv ACTION_REQUESTED)))) (''c1'', ''a1'')) =
      Some (Some ''Unknown action: dance'')
   \<and> fst (executor plainString (delivery (actionEvent ''search'')) ''a1'' 9
          (storeWithConv ACTION_REQUESTED)) = Inr ()
   \<and> map_option c_state
        (conversations (snd (executor plainString (delivery (actionEvent ''search'')) ''a1'' 9
                               (storeWithConv ACTION_REQUESTED))) ''c1'') = Some ACTION_COMPLETED"
proof -
  have dec: "decodeEventData (delivery (actionEvent a)) = Inr (actionEvent a)" for a
    by (simp add: decodeEventData_def delivery_def)
  have claim: "claimReceipt (e_eventId (actionEvent a))
                  \<lparr>meta_handler = ''executor'', meta_conversationId = e_conversationId (actionEvent a),
                   meta_messageId = e_messageId (actionEvent a)\<rparr> 9 (storeWithConv ACTION_REQUESTED) =
                (Inr True, claimedStore)" for a
    by (simp add: claimReceipt_def actionEvent_def storeWithConv_def emptyStore_def
        claimedStore_def)
  have iid: "p_intentId (e_payload (actionEvent a)) = Some uuid1" for a
    by (simp add: actionEvent_def)
  have fresh: "findActionResultByIntentId (e_conversationId (actionEvent a)) uuid1 claimedStore =
                 (Inr False, claimedStore)" for a
    by (simp add: findActionResultByIntentId_def claimedStore_def storeWithConv_def emptyStore_def)
  have conv: "conversations (storeWithConv ACTION_REQUESTED) (e_conversationId (actionEvent a)) =
                Some (conv1 ACTION_REQUESTED)" for a
    by (simp add: storeWithConv_def actionEvent_def)
  have st: "c_state (conv1 ACTION_REQUESTED) = ACTION_REQUESTED"
    by (simp add: conv1_def)
  note dance = executor_tool_outcome
    [OF dec [of "''dance''"] claim [of "''dance''"] iid [of "''dance''"] fresh [of "''dance''"]
        conv [of "''dance''"] st,
     where js_String = plainString and actionUuid = "''a1''"]
  note search = executor_tool_outcome
    [OF dec [of "''search''"] claim [of "''search''"] iid [of "''search''"] fresh [of "''search''"]
        conv [of "''search''"] st,
     where js_String = plainString and actionUuid = "''a1''"]
  have e1: "e_conversationId (actionEvent a) = ''c1''"
    "p_action (e_payload (actionEvent a)) = Some a" for a
    by (simp_all add: actionEvent_def)
  from dance search show ?thesis
    by (simp add: Let_def e1 executeTool_def)
qed

text \<open>
  The condition on the state of the conversation is needed. The reasoner publishes the
  action event before it moves the conversation to the action-requested state, so the
  executor can meet the conversation in the intent-validated state. The delivery decodes,
  the receipt claim returns true and no action result exists; the executor stores the
  result, and the transition then throws: the handler rejects the delivery, the receipt
  stays in processing and the conversation stays where it was, whether the tool succeeds
  or not.
\<close>

theorem executor_tool_outcome_counterexample:
  "decodeEventData (delivery (actionEvent ''dance'')) = Inr (actionEvent ''dance'')
   \<and> claimReceipt ''e2''
        \<lparr>meta_handler = ''executor'', meta_conversationId = ''c1'', meta_messageId = ''m1''\<rparr>
        9 (storeWithConv INTENT_VALIDATED) = (Inr True, overtakenStore)
   \<and> findActionResultByIntentId ''c1'' uuid1 overtakenStore = (Inr False, overtakenStore)
   \<and> t_success (executeTool plainString (Some ''dance'') (JObj [(''query'', JStr ''find cats'')]))
       = False
   \<and> fst (executor plainString (delivery (actionEvent ''dance'')) ''a1'' 9
            (storeWithConv INTENT_VALIDATED)) =
       Inl (InvalidTransition INTENT_VALIDATED FAILED_EXECUTION)
   \<and> map_option a_success
        (map_of (actions (snd (executor plainString (delivery (actionEvent ''dance'')) ''a1'' 9
                                 (storeWithConv INTENT_VALIDATED)))) (''c1'', ''a1'')) =
       Some False
   \<and> map_option c_state
        (conversations (snd (executor plainString (delivery (actionEvent ''dance'')) ''a1'' 9
                               (storeWithConv INTENT_VALIDATED))) ''c1'') =
       Some INTENT_VALIDATED
   \<and> map_option r_status
        (receipts (snd (executor plainString (delivery (actionEvent ''dance'')) ''a1'' 9
                          (storeWithConv INTENT_VALIDATED))) ''e2'') =
       Some ''processing''
   \<and> fst (executor plainString (delivery (actionEvent ''search'')) ''a1'' 9
            (storeWithConv INTENT_VALIDATED)) =
       Inl (InvalidTransition INTENT_VALIDATED ACTION_COMPLETED)"
  by (simp add: executor_def processAction_def decodeEventData_def delivery_def actionEvent_def
      claimReceipt_def storeWithConv_def emptyStore_def conv1_def overtakenStore_def
      findActionResultByIntentId_def executeTool_def valueOr_def andThen_def ret_def
      saveActionResult_def logEvent_def transitionState_def assertTransition_def
      validateTransition_def completeReceipt_def Let_def)

end
